theory Spec2Isabelle
  imports Complex_Main "HOL-Library.Sublist"
begin

section \<open>Python values carried by bus messages\<close>

text \<open>
  The payload of a bus message is a JSON dictionary, so a field can hold any JSON value.
  The skill tests such values with \<open>is True\<close>, \<open>isinstance\<close>, truthiness and \<open>in\<close>;
  each of these is written out below with Python's meaning. \<open>PTuple\<close> and \<open>PClass\<close>
  are there because the source builds the tuple \<open>(override_idle, bool)\<close>.
\<close>

datatype pyval =
    PNone
  | PBool bool
  | PInt int
  | PFloat real
  | PStr string
  | PList "pyval list"
  | PTuple "pyval list"
  | PDict "(string \<times> pyval) list"
  | PClass string

datatype error = KeyError string | TypeError | OverflowError | ValueError

text \<open>Truthiness, as \<open>if v:\<close> and \<open>not v\<close> decide it.\<close>

fun truthy :: "pyval \<Rightarrow> bool" where
  "truthy PNone = False"
| "truthy (PBool b) = b"
| "truthy (PInt i) = (i \<noteq> 0)"
| "truthy (PFloat x) = (x \<noteq> 0)"
| "truthy (PStr s) = (s \<noteq> [])"
| "truthy (PList xs) = (xs \<noteq> [])"
| "truthy (PTuple xs) = (xs \<noteq> [])"
| "truthy (PDict kvs) = (kvs \<noteq> [])"
| "truthy (PClass c) = True"

text \<open>\<open>isinstance(v, bool)\<close> and \<open>isinstance(v, int)\<close>: in Python \<open>bool\<close> is a subclass
  of \<open>int\<close>, so a boolean is an instance of both.\<close>

fun isinstance_bool :: "pyval \<Rightarrow> bool" where
  "isinstance_bool (PBool b) = True"
| "isinstance_bool v = False"

fun isinstance_int :: "pyval \<Rightarrow> bool" where
  "isinstance_int (PBool b) = True"
| "isinstance_int (PInt i) = True"
| "isinstance_int v = False"

text \<open>The number a value stands for where the source passes it on as an offset; only
  reached behind \<open>isinstance(v, int)\<close>.\<close>

fun int_value :: "pyval \<Rightarrow> int" where
  "int_value (PInt i) = i"
| "int_value (PBool b) = (if b then 1 else 0)"
| "int_value v = 0"

text \<open>\<open>sub in s\<close> on strings is a search for a contiguous occurrence.\<close>

fun str_contains :: "string \<Rightarrow> string \<Rightarrow> bool" where
  "str_contains [] sub = (sub = [])"
| "str_contains (c # cs) sub = (prefix sub (c # cs) \<or> str_contains cs sub)"

text \<open>\<open>name in v\<close> for a string \<open>name\<close>: substring search in a string, membership in a
  list or tuple, key membership in a dictionary, and a \<open>TypeError\<close> on a value that is
  not a container.\<close>

fun str_in :: "string \<Rightarrow> pyval \<Rightarrow> error + bool" where
  "str_in name (PStr s) = Inr (str_contains s name)"
| "str_in name (PList xs) = Inr (PStr name \<in> set xs)"
| "str_in name (PTuple xs) = Inr (PStr name \<in> set xs)"
| "str_in name (PDict kvs) = Inr (name \<in> set (map fst kvs))"
| "str_in name v = Inl TypeError"

section \<open>Numbers\<close>

text \<open>
  \<open>time.monotonic()\<close> returns a finite double, and the sums the skill forms with it are
  doubles: finite, infinite or not a number. A finite double is given by the real number
  it stands for. \<open>fl_less\<close> is \<open><\<close> on doubles, exact on finite values and false as soon
  as one side is not a number; comparing with the integer \<open>0\<close> that \<open>idle_next\<close> starts
  from is comparing with \<open>Fin 0\<close>.
\<close>

datatype float64 = Fin real | PInf | NInf | NaN

fun fl_less :: "float64 \<Rightarrow> float64 \<Rightarrow> bool" where
  "fl_less (Fin a) (Fin b) = (a < b)"
| "fl_less (Fin a) PInf = True"
| "fl_less NInf (Fin b) = True"
| "fl_less NInf PInf = True"
| "fl_less x y = False"

text \<open>An offset is a Python number: an integer of any size or a double.\<close>

datatype pynum = NInt int | NFloat float64

text \<open>\<open>int(offset)\<close>: an integer is itself, a finite double is cut towards zero, an
  infinite one raises \<open>OverflowError\<close> and not-a-number raises \<open>ValueError\<close>.\<close>

fun py_int :: "pynum \<Rightarrow> error + int" where
  "py_int (NInt i) = Inr i"
| "py_int (NFloat (Fin x)) = Inr (if 0 \<le> x then \<lfloor>x\<rfloor> else \<lceil>x\<rceil>)"
| "py_int (NFloat PInf) = Inl OverflowError"
| "py_int (NFloat NInf) = Inl OverflowError"
| "py_int (NFloat NaN) = Inl ValueError"

text \<open>
  The sum \<open>time.monotonic() + offset\<close> is computed by the interpreter in double
  arithmetic: the result is rounded, and an integer too large for a double raises
  \<open>OverflowError\<close>. The functions below take this addition as their first argument
  \<open>add\<close>, of type \<open>real \<Rightarrow> pynum \<Rightarrow> error + float64\<close>, and nothing is assumed about
  how it rounds. \<open>exact_add\<close> is the addition without rounding; on a clock reading and an
  offset that are integers of moderate size, as in the examples of this theory, the sum
  is a double and the interpreter returns just that.
\<close>

fun exact_add :: "real \<Rightarrow> pynum \<Rightarrow> error + float64" where
  "exact_add t (NInt i) = Inr (Fin (t + real_of_int i))"
| "exact_add t (NFloat (Fin y)) = Inr (Fin (t + y))"
| "exact_add t (NFloat f) = Inr f"

section \<open>Messages\<close>

record message =
  msg_type :: string
  data :: "string \<rightharpoonup> pyval"

text \<open>\<open>d.get(k)\<close> is \<open>dict_get d k PNone\<close>; \<open>d.get(k, dflt)\<close> is \<open>dict_get d k dflt\<close>;
  \<open>d[k]\<close> raises \<open>KeyError\<close> on a missing key.\<close>

definition dict_get :: "(string \<rightharpoonup> pyval) \<Rightarrow> string \<Rightarrow> pyval \<Rightarrow> pyval" where
  "dict_get d k dflt = (case d k of None \<Rightarrow> dflt | Some v \<Rightarrow> v)"

definition dict_index :: "(string \<rightharpoonup> pyval) \<Rightarrow> string \<Rightarrow> error + pyval" where
  "dict_index d k = (case d k of None \<Rightarrow> Inl (KeyError k) | Some v \<Rightarrow> Inr v)"

text \<open>The one outbound message of the skill:
  \<open>Message('screen.close.idle.event', data={"skill_idle_event_id": v})\<close>.\<close>

definition close_event :: "pyval \<Rightarrow> message" where
  "close_event v =
     \<lparr>msg_type = ''screen.close.idle.event'', data = [''skill_idle_event_id'' \<mapsto> v]\<rparr>"

section \<open>The host framework\<close>

text \<open>
  The skill runs inside a host (the class \<open>MycroftSkill\<close>, its message bus and its event
  scheduler), which is not part of this repository. The model keeps what the skill hands
  to the host:
  \<^item> the scheduler as the list of pending entries: \<open>cancel_scheduled_event\<close> drops the
    entries of a name, \<open>schedule_event\<close> adds one entry;
  \<^item> the bus as the list of messages emitted so far;
  \<^item> handler registration as the log of registration calls, in the order made.
  Calls into the host are taken to return normally, so the \<open>except\<close> clause of
  \<open>initialize\<close>, which guards two \<open>bus.on\<close> calls and only logs, has no branch here.
  Exceptions raised by the skill's own expressions (\<open>d[k]\<close> on a missing key, \<open>in\<close> on a
  value that is no container, a sum or \<open>int(offset)\<close> that overflows) are results of the
  model, and the \<open>except\<close> clause of \<open>start_idle_event\<close> catches those raised inside its
  \<open>try\<close>. Logging is left out. The lock \<open>idle_lock\<close> serialises \<open>start_idle_event\<close>;
  the model is sequential.
\<close>

datatype handler =
    Close_current_window
  | Close_window_by_event
  | Close_window_by_force
  | On_gui_page_show
  | On_gui_page_interaction

record scheduled_event =
  ev_handler :: handler
  ev_when :: int
  ev_name :: string
  ev_data :: "string \<rightharpoonup> pyval"

datatype host_call =
    GuiRegisterHandler string handler
  | AddEvent string handler
  | BusOn string handler
  | BusRemove string handler

definition cancel_scheduled_event :: "string \<Rightarrow> scheduled_event list \<Rightarrow> scheduled_event list" where
  "cancel_scheduled_event name evs = filter (\<lambda>e. ev_name e \<noteq> name) evs"

definition schedule_event ::
  "handler \<Rightarrow> int \<Rightarrow> string \<Rightarrow> (string \<rightharpoonup> pyval) \<Rightarrow> scheduled_event list \<Rightarrow> scheduled_event list" where
  "schedule_event h when name d evs =
     evs @ [\<lparr>ev_handler = h, ev_when = when, ev_name = name, ev_data = d\<rparr>]"

section \<open>The skill object\<close>

text \<open>The fields of \<open>BigscreenPlatform\<close> as \<open>__init__\<close> sets them, followed by the three
  parts of the host state. \<open>idle_next\<close> holds the integer \<open>0\<close> or a sum computed in
  double arithmetic; the clock readings stored by \<open>override\<close> are finite.\<close>

record bigscreen_platform =
  override_idle :: "(message \<times> real) option"
  interaction_without_idle :: bool
  interaction_skill_id :: pyval
  idle_next :: float64
  override_set_time :: real
  has_show_page :: bool
  host_scheduled :: "scheduled_event list"
  host_emitted :: "message list"
  host_calls :: "host_call list"

text \<open>\<open>__init__\<close>, with \<open>t\<close> the reading of \<open>time.monotonic()\<close>.\<close>

definition init :: "real \<Rightarrow> bigscreen_platform" where
  "init t =
     \<lparr>override_idle = None,
      interaction_without_idle = True,
      interaction_skill_id = PNone,
      idle_next = Fin 0,
      override_set_time = t,
      has_show_page = False,
      host_scheduled = [],
      host_emitted = [],
      host_calls = []\<rparr>"

definition bus_emit :: "message \<Rightarrow> bigscreen_platform \<Rightarrow> bigscreen_platform" where
  "bus_emit m st = st\<lparr>host_emitted := host_emitted st @ [m]\<rparr>"

section \<open>Lifecycle\<close>







section \<open>The idle timer\<close>

text \<open>
  \<open>override(message=None)\<close>: \<open>t1\<close> and \<open>t2\<close> are the two readings of the monotonic clock,
  in the order the source takes them. A \<open>Message\<close> object is truthy, so \<open>if message:\<close>
  asks whether one was passed.
\<close>

definition override ::
  "real \<Rightarrow> real \<Rightarrow> message option \<Rightarrow> bigscreen_platform \<Rightarrow> bigscreen_platform" where
  "override t1 t2 message st =
     (let st1 = st\<lparr>override_set_time := t1\<rparr>
      in case message of
           None \<Rightarrow> st1
         | Some m \<Rightarrow> st1\<lparr>override_idle := Some (m, t2)\<rparr>)"

definition cancel_idle_event :: "bigscreen_platform \<Rightarrow> bigscreen_platform" where
  "cancel_idle_event st =
     (let st1 = st\<lparr>idle_next := Fin 0\<rparr>
      in st1\<lparr>host_scheduled := cancel_scheduled_event ''IdleCheck'' (host_scheduled st1)\<rparr>)"

text \<open>
  \<open>start_idle_event(offset, weak, skid)\<close>, with \<open>add\<close> the interpreter's addition and
  \<open>t1\<close>, \<open>t2\<close> the two readings of the clock: \<open>t1\<close> in the guard and \<open>t2\<close> where
  \<open>idle_next\<close> is stored. The guard does not look at \<open>weak\<close>; it stands before the
  \<open>try\<close>, so an exception of its sum leaves the function. Inside the \<open>try\<close> the second
  sum and \<open>int(offset)\<close> can raise; \<open>except Exception\<close> catches that and logs, and the
  function returns with what it had done until then. \<open>int(offset)\<close> is evaluated after
  \<open>cancel_scheduled_event\<close>, as an argument of \<open>schedule_event\<close>.
\<close>

definition start_idle_event ::
  "(real \<Rightarrow> pynum \<Rightarrow> error + float64) \<Rightarrow> real \<Rightarrow> real \<Rightarrow> pynum \<Rightarrow> bool \<Rightarrow> pyval
     \<Rightarrow> bigscreen_platform \<Rightarrow> error option \<times> bigscreen_platform" where
  "start_idle_event add t1 t2 offset weak skid st =
     (case add t1 offset of
        Inl e \<Rightarrow> (Some e, st)
      | Inr candidate \<Rightarrow>
          if fl_less candidate (idle_next st) then (None, st)
          else
            (case (if \<not> weak
                   then (case add t2 offset of
                           Inl e \<Rightarrow> Inl e
                         | Inr deadline \<Rightarrow> Inr (st\<lparr>idle_next := deadline\<rparr>))
                   else Inr st) of
               Inl e \<Rightarrow> (None, st)
             | Inr st1 \<Rightarrow>
                 let st2 = st1\<lparr>host_scheduled :=
                                 cancel_scheduled_event ''IdleCheck'' (host_scheduled st1)\<rparr>
                 in (case py_int offset of
                       Inl e \<Rightarrow> (None, st2)
                     | Inr seconds \<Rightarrow>
                         (None, st2\<lparr>host_scheduled :=
                                  schedule_event Close_current_window seconds ''IdleCheck''
                                    [''skill_id'' \<mapsto> skid] (host_scheduled st2)\<rparr>))))"

section \<open>Handlers\<close>

text \<open>The handlers that arm the timer take \<open>add\<close>, \<open>t1\<close> and \<open>t2\<close> as
  \<open>start_idle_event\<close> does, and return the exception they raise, if any, and the state
  they leave.\<close>

definition on_gui_page_interaction ::
  "(real \<Rightarrow> pynum \<Rightarrow> error + float64) \<Rightarrow> real \<Rightarrow> real \<Rightarrow> message
     \<Rightarrow> bigscreen_platform \<Rightarrow> error option \<times> bigscreen_platform" where
  "on_gui_page_interaction add t1 t2 message st =
     (let skill_id = dict_get (data message) ''skill_id'' PNone;
          st1 = st\<lparr>interaction_skill_id := skill_id\<rparr>
      in if \<not> interaction_without_idle st1
         then start_idle_event add t1 t2 (NInt 30) False skill_id st1
         else (None, st1))"

text \<open>
  The second test of the chain in \<open>on_gui_page_show\<close> is the source's
  \<open>isinstance(override_idle, int) and not (override_idle, bool) and override_idle is not False\<close>,
  whose middle conjunct negates a tuple of two elements.
\<close>

definition on_gui_page_show ::
  "(real \<Rightarrow> pynum \<Rightarrow> error + float64) \<Rightarrow> real \<Rightarrow> real \<Rightarrow> message
     \<Rightarrow> bigscreen_platform \<Rightarrow> error option \<times> bigscreen_platform" where
  "on_gui_page_show add t1 t2 message st =
     (case str_in ''BigscreenPlatform'' (dict_get (data message) ''__from'' (PStr '''')) of
        Inl e \<Rightarrow> (Some e, st)
      | Inr True \<Rightarrow> (None, st)
      | Inr False \<Rightarrow>
          let st1 = st\<lparr>has_show_page := True\<rparr>;
              override_idle = dict_get (data message) ''__idle'' PNone;
              skill_id = dict_get (data message) ''__from'' (PStr '''')
          in if override_idle = PBool True then
               let st2 = st1\<lparr>interaction_without_idle := True\<rparr>;
                   st3 = cancel_idle_event st2
               in (None, override t1 t2 (Some message) st3)
             else if isinstance_int override_idle
                     \<and> \<not> truthy (PTuple [override_idle, PClass ''bool''])
                     \<and> override_idle \<noteq> PBool False then
               let st2 = st1\<lparr>interaction_without_idle := True\<rparr>
               in start_idle_event add t1 t2 (NInt (int_value override_idle)) False skill_id st2
             else
               (case dict_index (data message) ''page'' of
                  Inl e \<Rightarrow> (Some e, st1)
                | Inr page \<Rightarrow>
                    if truthy page then
                      if \<not> isinstance_bool override_idle \<or> \<not> isinstance_int override_idle then
                        let st2 = st1\<lparr>interaction_without_idle := False\<rparr>
                        in start_idle_event add t1 t2 (NInt 30) False skill_id st2
                      else (None, st1)
                    else (None, st1)))"

definition close_current_window :: "message \<Rightarrow> bigscreen_platform \<Rightarrow> bigscreen_platform" where
  "close_current_window message st =
     (if \<not> interaction_without_idle st
      then bus_emit (close_event (dict_get (data message) ''skill_id'' PNone)) st
      else st)"

definition close_window_by_event :: "message \<Rightarrow> bigscreen_platform \<Rightarrow> bigscreen_platform" where
  "close_window_by_event message st =
     (let st1 = st\<lparr>interaction_without_idle := False\<rparr>
      in bus_emit (close_event (interaction_skill_id st1)) st1)"

definition close_window_by_force ::
  "message \<Rightarrow> bigscreen_platform \<Rightarrow> error option \<times> bigscreen_platform" where
  "close_window_by_force message st =
     (case dict_index (data message) ''skill_id'' of
        Inl e \<Rightarrow> (Some e, st)
      | Inr skill_id_from_message \<Rightarrow> (None, bus_emit (close_event skill_id_from_message) st))"

text \<open>
  When a scheduled entry comes due, the host calls the entry's handler with a message
  that carries the data given to \<open>schedule_event\<close>. The skill schedules one handler only,
  \<open>close_current_window\<close>.
\<close>

definition scheduled_message :: "scheduled_event \<Rightarrow> message" where
  "scheduled_message e = \<lparr>msg_type = ev_name e, data = ev_data e\<rparr>"

definition fire :: "scheduled_event \<Rightarrow> bigscreen_platform \<Rightarrow> bigscreen_platform" where
  "fire e st = close_current_window (scheduled_message e) st"

text \<open>The entry \<open>start_idle_event\<close> hands to the scheduler, due in \<open>seconds\<close>, and the
  pending entries of the idle timer.\<close>

definition idle_check :: "int \<Rightarrow> pyval \<Rightarrow> scheduled_event" where
  "idle_check seconds skid =
     \<lparr>ev_handler = Close_current_window, ev_when = seconds, ev_name = ''IdleCheck'',
      ev_data = [''skill_id'' \<mapsto> skid]\<rparr>"

definition pending_idle :: "bigscreen_platform \<Rightarrow> scheduled_event list" where
  "pending_idle st = filter (\<lambda>e. ev_name e = ''IdleCheck'') (host_scheduled st)"

text \<open>A sequence of calls on the timer, run one after the other; a call that raises
  leaves the state it had reached, and the next call runs on it.\<close>

datatype timer_call = Arm real real pynum bool pyval | Cancel

fun timer_step ::
  "(real \<Rightarrow> pynum \<Rightarrow> error + float64) \<Rightarrow> timer_call \<Rightarrow> bigscreen_platform
     \<Rightarrow> bigscreen_platform" where
  "timer_step add (Arm t1 t2 offset weak skid) st =
     snd (start_idle_event add t1 t2 offset weak skid st)"
| "timer_step add Cancel st = cancel_idle_event st"

fun run_timer_calls ::
  "(real \<Rightarrow> pynum \<Rightarrow> error + float64) \<Rightarrow> timer_call list \<Rightarrow> bigscreen_platform
     \<Rightarrow> bigscreen_platform" where
  "run_timer_calls add [] st = st"
| "run_timer_calls add (c # cs) st = run_timer_calls add cs (timer_step add c st)"

section \<open>Delivery of a close request\<close>





section \<open>Facts about the value tests\<close>

lemma str_contains_sublist: "str_contains s sub = sublist sub s"
  by (induction s) (simp_all add: sublist_Cons_right)

section \<open>Facts about the timer\<close>

lemma numeric_test_never_holds:
  "\<not> (isinstance_int v \<and> \<not> truthy (PTuple [v, PClass ''bool'']) \<and> v \<noteq> PBool False)"
  by simp

lemma start_idle_event_guard_raises:
  "add t offset = Inl e \<Longrightarrow> start_idle_event add t t' offset weak skid st = (Some e, st)"
  by (simp add: start_idle_event_def)

lemma start_idle_event_rejected:
  "add t offset = Inr c \<Longrightarrow> fl_less c (idle_next st) \<Longrightarrow>
   start_idle_event add t t' offset weak skid st = (None, st)"
  by (simp add: start_idle_event_def)

lemma start_idle_event_accepted:
  "add t offset = Inr c \<Longrightarrow> \<not> fl_less c (idle_next st) \<Longrightarrow>
   weak \<or> add t' offset = Inr c' \<Longrightarrow> py_int offset = Inr n \<Longrightarrow>
   start_idle_event add t t' offset weak skid st =
     (None,
      st\<lparr>idle_next := (if weak then idle_next st else c'),
         host_scheduled := cancel_scheduled_event ''IdleCheck'' (host_scheduled st)
                           @ [idle_check n skid]\<rparr>)"
  by (auto simp add: start_idle_event_def schedule_event_def idle_check_def Let_def)

lemma pending_idle_cancel_scheduled:
  "filter (\<lambda>e. ev_name e = ''IdleCheck'') (cancel_scheduled_event ''IdleCheck'' evs) = []"
  by (induction evs) (simp_all add: cancel_scheduled_event_def)

lemma pending_idle_cancel: "pending_idle (cancel_idle_event st) = []"
  by (simp add: pending_idle_def cancel_idle_event_def Let_def pending_idle_cancel_scheduled)

lemma pending_idle_start:
  assumes "add t offset = Inr c" and "\<not> fl_less c (idle_next st)"
      and "weak \<or> add t' offset = Inr c'" and "py_int offset = Inr n"
  shows "pending_idle (snd (start_idle_event add t t' offset weak skid st))
           = [idle_check n skid]"
  using assms
  by (auto simp add: start_idle_event_def Let_def pending_idle_def schedule_event_def
        idle_check_def pending_idle_cancel_scheduled)

text \<open>Once the guard is passed and the deadline stored, what is pending is either
  nothing (\<open>int(offset)\<close> raised after the cancel) or the entry just scheduled.\<close>

lemma pending_idle_armed:
  assumes "add t offset = Inr c" and "\<not> fl_less c (idle_next st)"
      and "weak \<or> add t' offset = Inr c'"
      and "e \<in> set (pending_idle (snd (start_idle_event add t t' offset weak skid st)))"
  shows "\<exists>n. py_int offset = Inr n \<and> e = idle_check n skid"
proof (cases "py_int offset")
  case (Inl err)
  with assms(1-3) have "pending_idle (snd (start_idle_event add t t' offset weak skid st)) = []"
    by (auto simp add: start_idle_event_def Let_def pending_idle_def
          pending_idle_cancel_scheduled)
  with assms(4) show ?thesis by simp
next
  case (Inr n)
  with assms(1-3)
  have "pending_idle (snd (start_idle_event add t t' offset weak skid st)) = [idle_check n skid]"
    by (rule pending_idle_start [where add = add and t = t and t' = t' and c = c and c' = c'])
  with assms(4) Inr show ?thesis by simp
qed

lemma start_idle_event_at_most_one:
  assumes "length (pending_idle st) \<le> 1"
  shows "length (pending_idle (snd (start_idle_event add t t' offset weak skid st))) \<le> 1"
proof -
  have new: "ev_name \<lparr>ev_handler = Close_current_window, ev_when = n, ev_name = ''IdleCheck'',
                      ev_data = [''skill_id'' \<mapsto> skid]\<rparr> = ''IdleCheck''" for n
    by simp
  show ?thesis
    using assms
    by (auto simp add: start_idle_event_def Let_def pending_idle_def schedule_event_def
          pending_idle_cancel_scheduled new split: sum.splits)
qed

lemma start_idle_event_weak_deadline:
  "idle_next (snd (start_idle_event add t t' offset True skid st)) = idle_next st"
  by (simp add: start_idle_event_def Let_def split: sum.splits)

lemma start_idle_event_flag:
  "interaction_without_idle (snd (start_idle_event add t t' offset weak skid st))
     = interaction_without_idle st"
  by (simp add: start_idle_event_def Let_def split: sum.splits)

lemma timer_step_at_most_one:
  "length (pending_idle st) \<le> 1 \<Longrightarrow> length (pending_idle (timer_step add c st)) \<le> 1"
proof (cases c)
  case (Arm t t' offset weak skid)
  assume "length (pending_idle st) \<le> 1"
  then have "length (pending_idle (snd (start_idle_event add t t' offset weak skid st))) \<le> 1"
    by (rule start_idle_event_at_most_one)
  with Arm show ?thesis by simp
next
  case Cancel
  then show ?thesis by (simp add: pending_idle_cancel)
qed

lemma run_timer_calls_at_most_one:
  "length (pending_idle st) \<le> 1 \<Longrightarrow> length (pending_idle (run_timer_calls add cs st)) \<le> 1"
proof (induction cs arbitrary: st)
  case Nil
  then show ?case by simp
next
  case (Cons c cs)
  from Cons.prems have "length (pending_idle (timer_step add c st)) \<le> 1"
    by (rule timer_step_at_most_one)
  then have "length (pending_idle (run_timer_calls add cs (timer_step add c st))) \<le> 1"
    by (rule Cons.IH)
  then show ?case by simp
qed

lemma fire_idle_check:
  "fire (idle_check n skid) st =
     (if interaction_without_idle st then st
      else st\<lparr>host_emitted := host_emitted st @ [close_event skid]\<rparr>)"
  by (simp add: fire_def scheduled_message_def close_current_window_def idle_check_def
        dict_get_def bus_emit_def)

section \<open>Facts about registration and delivery\<close>




section \<open>Claims\<close>

text \<open>
  In the examples below clock readings and offsets are small integers or halves, whose
  sums are doubles; there the interpreter's addition returns the exact sum, which is
  \<open>exact_add\<close>.
\<close>

text \<open>
  C1. A \<open>gui.page.show\<close> message from another skill with \<open>__idle = 15\<close> should arm the
  timer for 15 seconds. Evaluated on such a message, with a page, sent by
  \<open>skill-weather\<close> to a freshly constructed skill at clock reading 100: the numeric
  branch is not taken, the default branch runs, and the entry scheduled is due in 30
  seconds, with the deadline at 130.
\<close>

theorem page_show_idle_15_arms_30:
  "on_gui_page_show exact_add 100 100
     \<lparr>msg_type = ''gui.page.show'',
      data = [''__from'' \<mapsto> PStr ''skill-weather'', ''__idle'' \<mapsto> PInt 15,
              ''page'' \<mapsto> PList [PStr ''weather.qml'']]\<rparr>
     (init 0)
   = (None,
      (init 0)\<lparr>interaction_without_idle := False, idle_next := Fin 130, has_show_page := True,
               host_scheduled := [idle_check 30 (PStr ''skill-weather'')]\<rparr>)"
  by (simp add: on_gui_page_show_def dict_get_def dict_index_def init_def
        start_idle_event_def cancel_scheduled_event_def schedule_event_def idle_check_def)

theorem page_show_idle_15_arms_30_witness:
  "map ev_when (host_scheduled (snd (on_gui_page_show exact_add 100 100
     \<lparr>msg_type = ''gui.page.show'',
      data = [''__from'' \<mapsto> PStr ''skill-weather'', ''__idle'' \<mapsto> PInt 15,
              ''page'' \<mapsto> PList [PStr ''weather.qml'']]\<rparr>
     (init 0)))) = [30]"
  using page_show_idle_15_arms_30 by (simp add: idle_check_def)

text \<open>
  C2, as stated: an authoritative call (\<open>weak = False\<close>) replaces the deadline even when
  its candidate is earlier than the current deadline. It does not: after an authoritative
  arm of 100 seconds at time 0, an authoritative arm of 30 seconds at time 1 changes
  nothing, and the deadline stays at 100.
\<close>

theorem authoritative_arm_earlier_counterexample:
  "start_idle_event exact_add 1 1 (NInt 30) False (PStr ''b'')
     (snd (start_idle_event exact_add 0 0 (NInt 100) False (PStr ''a'') (init 0)))
   = (None, snd (start_idle_event exact_add 0 0 (NInt 100) False (PStr ''a'') (init 0)))
   \<and> idle_next (snd (start_idle_event exact_add 1 1 (NInt 30) False (PStr ''b'')
        (snd (start_idle_event exact_add 0 0 (NInt 100) False (PStr ''a'') (init 0)))))
      = Fin 100
   \<and> pending_idle (snd (start_idle_event exact_add 1 1 (NInt 30) False (PStr ''b'')
        (snd (start_idle_event exact_add 0 0 (NInt 100) False (PStr ''a'') (init 0)))))
      = [idle_check 100 (PStr ''a'')]"
  by (simp add: start_idle_event_def init_def cancel_scheduled_event_def schedule_event_def
        idle_check_def pending_idle_def)

text \<open>
  C2, amended. Let the candidate be the double that \<open>time.monotonic() + offset\<close>
  evaluates to in the guard, whatever the rounding. An authoritative call whose
  candidate is not less than the current deadline replaces the deadline by the sum
  computed at the update, cancels the pending \<open>IdleCheck\<close> entries and schedules one new
  entry due in \<open>int(offset)\<close> seconds; an authoritative call whose candidate is less than
  the current deadline changes nothing.
\<close>

theorem authoritative_arm_replaces_unless_earlier:
  "(add t offset = Inr c \<and> \<not> fl_less c (idle_next st)
      \<and> add t' offset = Inr c' \<and> py_int offset = Inr n \<longrightarrow>
      start_idle_event add t t' offset False skid st
        = (None,
           st\<lparr>idle_next := c',
              host_scheduled := cancel_scheduled_event ''IdleCheck'' (host_scheduled st)
                                @ [idle_check n skid]\<rparr>)
      \<and> pending_idle (snd (start_idle_event add t t' offset False skid st))
          = [idle_check n skid])
   \<and> (add t offset = Inr c \<and> fl_less c (idle_next st) \<longrightarrow>
      start_idle_event add t t' offset False skid st = (None, st))"
proof -
  have accepted: "start_idle_event add t t' offset False skid st
        = (None,
           st\<lparr>idle_next := c',
              host_scheduled := cancel_scheduled_event ''IdleCheck'' (host_scheduled st)
                                @ [idle_check n skid]\<rparr>)
      \<and> pending_idle (snd (start_idle_event add t t' offset False skid st))
          = [idle_check n skid]"
    if "add t offset = Inr c" and "\<not> fl_less c (idle_next st)"
      and "add t' offset = Inr c'" and "py_int offset = Inr n"
    using that
    by (auto simp add: start_idle_event_def Let_def pending_idle_def schedule_event_def
          idle_check_def pending_idle_cancel_scheduled)
  have rejected: "start_idle_event add t t' offset False skid st = (None, st)"
    if "add t offset = Inr c" and "fl_less c (idle_next st)"
    using that by (simp add: start_idle_event_def)
  from accepted rejected show ?thesis by blast
qed

theorem authoritative_arm_replaces_unless_earlier_witness:
  "start_idle_event exact_add 10 (21 / 2) (NInt 30) False (PStr ''b'')
       ((init 0)\<lparr>idle_next := Fin 20, host_scheduled := [idle_check 20 (PStr ''a'')]\<rparr>)
     = (None, (init 0)\<lparr>idle_next := Fin (81 / 2),
                        host_scheduled := [idle_check 30 (PStr ''b'')]\<rparr>)
   \<and> start_idle_event exact_add 10 (21 / 2) (NInt 5) False (PStr ''b'')
       ((init 0)\<lparr>idle_next := Fin 20, host_scheduled := [idle_check 20 (PStr ''a'')]\<rparr>)
     = (None, (init 0)\<lparr>idle_next := Fin 20, host_scheduled := [idle_check 20 (PStr ''a'')]\<rparr>)"
  using authoritative_arm_replaces_unless_earlier
          [where add = exact_add and t = 10 and t' = "21 / 2" and offset = "NInt 30"
             and c = "Fin 40" and c' = "Fin (81 / 2)" and n = 30 and skid = "PStr ''b''"
             and st = "(init 0)\<lparr>idle_next := Fin 20,
                                 host_scheduled := [idle_check 20 (PStr ''a'')]\<rparr>"]
        authoritative_arm_replaces_unless_earlier
          [where add = exact_add and t = 10 and t' = "21 / 2" and offset = "NInt 5"
             and c = "Fin 15" and c' = "Fin (31 / 2)" and n = 5 and skid = "PStr ''b''"
             and st = "(init 0)\<lparr>idle_next := Fin 20,
                                 host_scheduled := [idle_check 20 (PStr ''a'')]\<rparr>"]
  by (simp add: init_def cancel_scheduled_event_def idle_check_def)

text \<open>
  C3. Whatever the suppression flag was when the timer was armed, the entry the arming
  left pending, when it fires, looks at the flag as it is then: with the flag true
  nothing is emitted and the state is unchanged; with the flag false exactly one close
  event is emitted, carrying the identity the timer was armed with. The same holds of
  \<open>close_current_window\<close> on any message \<open>m\<close>, the identity being the message's
  \<open>skill_id\<close>. The arming is one that passed the guard and, unless weak, stored its
  deadline.
\<close>

theorem fire_checks_suppression_when_it_runs:
  assumes "add t offset = Inr c"
      and "\<not> fl_less c (idle_next st0)"
      and "weak \<or> add t' offset = Inr c'"
      and "e \<in> set (pending_idle (snd (start_idle_event add t t' offset weak skid st0)))"
  shows "(interaction_without_idle st \<longrightarrow>
            fire e st = st \<and> close_current_window m st = st)
       \<and> (\<not> interaction_without_idle st \<longrightarrow>
            host_emitted (fire e st) = host_emitted st @ [close_event skid]
            \<and> host_emitted (close_current_window m st)
                = host_emitted st @ [close_event (dict_get (data m) ''skill_id'' PNone)])"
proof -
  from assms have "\<exists>n. py_int offset = Inr n \<and> e = idle_check n skid"
    by (rule pending_idle_armed [where add = add and t = t and t' = t' and c = c and c' = c'])
  then obtain n where "e = idle_check n skid" by blast
  then show ?thesis
    by (simp add: fire_idle_check close_current_window_def bus_emit_def)
qed

theorem fire_checks_suppression_when_it_runs_witness:
  "fire (idle_check 30 (PStr ''a'')) ((init 0)\<lparr>interaction_without_idle := True\<rparr>)
     = (init 0)\<lparr>interaction_without_idle := True\<rparr>
   \<and> host_emitted (fire (idle_check 30 (PStr ''a''))
        ((init 0)\<lparr>interaction_without_idle := False\<rparr>)) = [close_event (PStr ''a'')]"
proof -
  have sum: "exact_add 0 (NInt 30) = Inr (Fin 30)"
    by simp
  have guard: "\<not> fl_less (Fin 30) (idle_next ((init 0)\<lparr>interaction_without_idle := False\<rparr>))"
    by (simp add: init_def)
  have stored: "False \<or> exact_add 0 (NInt 30) = Inr (Fin 30)"
    by simp
  have pending: "idle_check 30 (PStr ''a'')
      \<in> set (pending_idle (snd (start_idle_event exact_add 0 0 (NInt 30) False (PStr ''a'')
               ((init 0)\<lparr>interaction_without_idle := False\<rparr>))))"
    by (simp add: start_idle_event_def init_def cancel_scheduled_event_def schedule_event_def
          idle_check_def pending_idle_def)
  from fire_checks_suppression_when_it_runs
         [where add = exact_add and t = 0 and t' = 0 and offset = "NInt 30" and c = "Fin 30"
            and c' = "Fin 30" and weak = False and skid = "PStr ''a''"
            and ?st0.0 = "(init 0)\<lparr>interaction_without_idle := False\<rparr>"
            and e = "idle_check 30 (PStr ''a'')"
            and st = "(init 0)\<lparr>interaction_without_idle := True\<rparr>",
          OF sum guard stored pending]
       fire_checks_suppression_when_it_runs
         [where add = exact_add and t = 0 and t' = 0 and offset = "NInt 30" and c = "Fin 30"
            and c' = "Fin 30" and weak = False and skid = "PStr ''a''"
            and ?st0.0 = "(init 0)\<lparr>interaction_without_idle := False\<rparr>"
            and e = "idle_check 30 (PStr ''a'')"
            and st = "(init 0)\<lparr>interaction_without_idle := False\<rparr>",
          OF sum guard stored pending]
  show ?thesis by (simp add: init_def)
qed

text \<open>
  C4, as stated: a \<open>gui.page.show\<close> message from another skill whose \<open>__idle\<close> is neither
  \<open>True\<close> nor a positive integer is handled without an exception, also when the page
  field is missing. A message from \<open>skill-weather\<close> with no \<open>__idle\<close> and no \<open>page\<close>
  makes the handler raise \<open>KeyError('page')\<close>.
\<close>

theorem page_show_missing_page_counterexample:
  "fst (on_gui_page_show exact_add 0 0
          \<lparr>msg_type = ''gui.page.show'', data = [''__from'' \<mapsto> PStr ''skill-weather'']\<rparr>
          (init 0))
   = Some (KeyError ''page'')"
  by (simp add: on_gui_page_show_def dict_get_def dict_index_def)

text \<open>
  C4, amended: for a \<open>gui.page.show\<close> message whose \<open>__idle\<close> is neither \<open>True\<close> nor a
  positive integer.
  When \<open>__from\<close> holds a value that is not a string, a list, a tuple or a dictionary (a
  number, a boolean, \<open>None\<close>), the test of the sender raises \<open>TypeError\<close> and nothing is
  changed, with or without a page.
  When \<open>__from\<close> is a container without \<open>BigscreenPlatform\<close> in it (the message is from
  another skill): with the page field missing the handler raises \<open>KeyError('page')\<close>,
  having set \<open>has_show_page\<close> and nothing else (no timer change, nothing emitted); with
  the page field present and empty it raises nothing and sets \<open>has_show_page\<close> and
  nothing else; with the page field present, empty or not, it raises nothing, given
  that the sum of the clock reading and 30 is computed.
\<close>

theorem page_show_without_directive_and_page:
  assumes "dict_get (data m) ''__idle'' PNone \<noteq> PBool True"
      and "\<forall>n. 0 < n \<longrightarrow> dict_get (data m) ''__idle'' PNone \<noteq> PInt n"
  shows "((\<forall>s. dict_get (data m) ''__from'' (PStr '''') \<noteq> PStr s)
            \<and> (\<forall>xs. dict_get (data m) ''__from'' (PStr '''') \<noteq> PList xs)
            \<and> (\<forall>xs. dict_get (data m) ''__from'' (PStr '''') \<noteq> PTuple xs)
            \<and> (\<forall>kvs. dict_get (data m) ''__from'' (PStr '''') \<noteq> PDict kvs) \<longrightarrow>
            on_gui_page_show add t t' m st = (Some TypeError, st))
       \<and> (str_in ''BigscreenPlatform'' (dict_get (data m) ''__from'' (PStr '''')) = Inr False
            \<and> data m ''page'' = None \<longrightarrow>
            on_gui_page_show add t t' m st
              = (Some (KeyError ''page''), st\<lparr>has_show_page := True\<rparr>))
       \<and> (str_in ''BigscreenPlatform'' (dict_get (data m) ''__from'' (PStr '''')) = Inr False
            \<and> data m ''page'' = Some page \<and> \<not> truthy page \<longrightarrow>
            on_gui_page_show add t t' m st = (None, st\<lparr>has_show_page := True\<rparr>))
       \<and> (str_in ''BigscreenPlatform'' (dict_get (data m) ''__from'' (PStr '''')) = Inr False
            \<and> data m ''page'' = Some page \<and> add t (NInt 30) = Inr c \<longrightarrow>
            fst (on_gui_page_show add t t' m st) = None)"
proof -
  have no_container: "on_gui_page_show add t t' m st = (Some TypeError, st)"
    if "\<forall>s. dict_get (data m) ''__from'' (PStr '''') \<noteq> PStr s"
      and "\<forall>xs. dict_get (data m) ''__from'' (PStr '''') \<noteq> PList xs"
      and "\<forall>xs. dict_get (data m) ''__from'' (PStr '''') \<noteq> PTuple xs"
      and "\<forall>kvs. dict_get (data m) ''__from'' (PStr '''') \<noteq> PDict kvs"
  proof -
    from that have "str_in ''BigscreenPlatform'' (dict_get (data m) ''__from'' (PStr ''''))
        = Inl TypeError"
      by (cases "dict_get (data m) ''__from'' (PStr '''')") simp_all
    then show ?thesis by (simp add: on_gui_page_show_def)
  qed
  have missing: "on_gui_page_show add t t' m st
        = (Some (KeyError ''page''), st\<lparr>has_show_page := True\<rparr>)"
    if "str_in ''BigscreenPlatform'' (dict_get (data m) ''__from'' (PStr '''')) = Inr False"
      and "data m ''page'' = None"
    using that assms(1) by (simp add: on_gui_page_show_def dict_index_def Let_def)
  have empty: "on_gui_page_show add t t' m st = (None, st\<lparr>has_show_page := True\<rparr>)"
    if "str_in ''BigscreenPlatform'' (dict_get (data m) ''__from'' (PStr '''')) = Inr False"
      and "data m ''page'' = Some page" and "\<not> truthy page"
    using that assms(1) by (simp add: on_gui_page_show_def dict_index_def Let_def)
  have quiet: "fst (on_gui_page_show add t t' m st) = None"
    if "str_in ''BigscreenPlatform'' (dict_get (data m) ''__from'' (PStr '''')) = Inr False"
      and "data m ''page'' = Some page" and "add t (NInt 30) = Inr c"
    using that assms(1)
    by (simp add: on_gui_page_show_def dict_index_def Let_def start_idle_event_def
          split: sum.splits)
  from no_container missing empty quiet show ?thesis by blast
qed

theorem page_show_without_directive_and_page_witness:
  "on_gui_page_show exact_add 0 0
     \<lparr>msg_type = ''gui.page.show'',
      data = [''__from'' \<mapsto> PInt 7, ''page'' \<mapsto> PList [PStr ''p'']]\<rparr> (init 0)
     = (Some TypeError, init 0)
   \<and> on_gui_page_show exact_add 0 0
     \<lparr>msg_type = ''gui.page.show'', data = [''__from'' \<mapsto> PStr ''skill-weather'']\<rparr> (init 0)
     = (Some (KeyError ''page''), (init 0)\<lparr>has_show_page := True\<rparr>)
   \<and> on_gui_page_show exact_add 0 0
       \<lparr>msg_type = ''gui.page.show'',
        data = [''__from'' \<mapsto> PStr ''skill-weather'', ''page'' \<mapsto> PList []]\<rparr> (init 0)
     = (None, (init 0)\<lparr>has_show_page := True\<rparr>)
   \<and> fst (on_gui_page_show exact_add 0 0
       \<lparr>msg_type = ''gui.page.show'',
        data = [''__from'' \<mapsto> PStr ''skill-weather'', ''page'' \<mapsto> PStr ''weather'']\<rparr>
       (init 0))
     = None"
  using page_show_without_directive_and_page
          [where add = exact_add and t = 0 and t' = 0 and st = "init 0"
             and m = "\<lparr>msg_type = ''gui.page.show'',
                       data = [''__from'' \<mapsto> PInt 7, ''page'' \<mapsto> PList [PStr ''p'']]\<rparr>"
             and page = "PList [PStr ''p'']" and c = "Fin 30"]
        page_show_without_directive_and_page
          [where add = exact_add and t = 0 and t' = 0 and st = "init 0"
             and m = "\<lparr>msg_type = ''gui.page.show'',
                       data = [''__from'' \<mapsto> PStr ''skill-weather'']\<rparr>"
             and page = "PList []" and c = "Fin 30"]
        page_show_without_directive_and_page
          [where add = exact_add and t = 0 and t' = 0 and st = "init 0"
             and m = "\<lparr>msg_type = ''gui.page.show'',
                       data = [''__from'' \<mapsto> PStr ''skill-weather'', ''page'' \<mapsto> PList []]\<rparr>"
             and page = "PList []" and c = "Fin 30"]
        page_show_without_directive_and_page
          [where add = exact_add and t = 0 and t' = 0 and st = "init 0"
             and m = "\<lparr>msg_type = ''gui.page.show'',
                       data = [''__from'' \<mapsto> PStr ''skill-weather'',
                               ''page'' \<mapsto> PStr ''weather'']\<rparr>"
             and page = "PStr ''weather''" and c = "Fin 30"]
  by (simp add: dict_get_def)

text \<open>
  C5, as stated: a \<open>gui.page.show\<close> message from another skill with a non-empty page and
  \<open>__idle = False\<close> sets \<open>interaction_without_idle\<close> to false and arms the timer for 30
  seconds. On such a message to a freshly constructed skill the flag keeps its value
  \<open>True\<close> and nothing is scheduled.
\<close>

theorem page_show_idle_false_counterexample:
  "interaction_without_idle (snd (on_gui_page_show exact_add 0 0
       \<lparr>msg_type = ''gui.page.show'',
        data = [''__from'' \<mapsto> PStr ''skill-weather'', ''__idle'' \<mapsto> PBool False,
                ''page'' \<mapsto> PList [PStr ''weather.qml'']]\<rparr> (init 0)))
   \<and> host_scheduled (snd (on_gui_page_show exact_add 0 0
       \<lparr>msg_type = ''gui.page.show'',
        data = [''__from'' \<mapsto> PStr ''skill-weather'', ''__idle'' \<mapsto> PBool False,
                ''page'' \<mapsto> PList [PStr ''weather.qml'']]\<rparr> (init 0))) = []"
  by (simp add: on_gui_page_show_def dict_get_def dict_index_def init_def)

text \<open>
  C5, amended: for a \<open>gui.page.show\<close> message from another skill: a directive
  \<open>__idle = True\<close> is tested first and takes effect alone (suppression, cancel,
  \<open>override\<close>), the page field not being looked at; with a non-empty page and a directive
  that is not a boolean and not a positive integer (absent included) the handler sets
  \<open>interaction_without_idle\<close> to false and calls \<open>start_idle_event\<close> authoritatively with
  exactly 30 seconds and the sender's identity; with a non-empty page and
  \<open>__idle = False\<close> it changes neither the flag nor the timer.
\<close>

theorem page_show_default_branch:
  assumes "str_in ''BigscreenPlatform'' (dict_get (data m) ''__from'' (PStr '''')) = Inr False"
  shows "(dict_get (data m) ''__idle'' PNone = PBool True \<longrightarrow>
            on_gui_page_show add t t' m st =
              (None, override t t' (Some m)
                       (cancel_idle_event
                          (st\<lparr>has_show_page := True, interaction_without_idle := True\<rparr>))))
       \<and> (data m ''page'' = Some page \<and> truthy page
            \<and> \<not> isinstance_bool (dict_get (data m) ''__idle'' PNone)
            \<and> (\<forall>n. 0 < n \<longrightarrow> dict_get (data m) ''__idle'' PNone \<noteq> PInt n) \<longrightarrow>
            on_gui_page_show add t t' m st =
              start_idle_event add t t' (NInt 30) False
                (dict_get (data m) ''__from'' (PStr ''''))
                (st\<lparr>has_show_page := True, interaction_without_idle := False\<rparr>)
            \<and> \<not> interaction_without_idle (snd (on_gui_page_show add t t' m st)))
       \<and> (data m ''page'' = Some page \<and> truthy page
            \<and> dict_get (data m) ''__idle'' PNone = PBool False \<longrightarrow>
            on_gui_page_show add t t' m st = (None, st\<lparr>has_show_page := True\<rparr>))"
proof -
  have bool_true: "isinstance_bool (PBool True)" by simp
  show ?thesis
    using assms bool_true
    by (auto simp add: on_gui_page_show_def dict_index_def Let_def start_idle_event_flag)
qed

theorem page_show_default_branch_witness:
  "on_gui_page_show exact_add 5 6
     \<lparr>msg_type = ''gui.page.show'',
      data = [''__from'' \<mapsto> PStr ''skill-weather'', ''__idle'' \<mapsto> PBool True]\<rparr> (init 0)
     = (None, (init 0)\<lparr>has_show_page := True, override_set_time := 5,
          override_idle := Some (\<lparr>msg_type = ''gui.page.show'',
            data = [''__from'' \<mapsto> PStr ''skill-weather'', ''__idle'' \<mapsto> PBool True]\<rparr>, 6)\<rparr>)
   \<and> on_gui_page_show exact_add 5 6
       \<lparr>msg_type = ''gui.page.show'',
        data = [''__from'' \<mapsto> PStr ''skill-weather'', ''page'' \<mapsto> PStr ''weather'']\<rparr> (init 0)
     = (None, (init 0)\<lparr>has_show_page := True, interaction_without_idle := False,
          idle_next := Fin 36, host_scheduled := [idle_check 30 (PStr ''skill-weather'')]\<rparr>)
   \<and> on_gui_page_show exact_add 5 6
       \<lparr>msg_type = ''gui.page.show'',
        data = [''__from'' \<mapsto> PStr ''skill-weather'', ''__idle'' \<mapsto> PBool False,
                ''page'' \<mapsto> PStr ''weather'']\<rparr> (init 0)
     = (None, (init 0)\<lparr>has_show_page := True\<rparr>)"
  using page_show_default_branch
          [where add = exact_add and t = 5 and t' = 6 and st = "init 0"
             and page = "PStr ''weather''"
             and m = "\<lparr>msg_type = ''gui.page.show'',
                data = [''__from'' \<mapsto> PStr ''skill-weather'', ''__idle'' \<mapsto> PBool True]\<rparr>"]
        page_show_default_branch
          [where add = exact_add and t = 5 and t' = 6 and st = "init 0"
             and page = "PStr ''weather''"
             and m = "\<lparr>msg_type = ''gui.page.show'',
                data = [''__from'' \<mapsto> PStr ''skill-weather'', ''page'' \<mapsto> PStr ''weather'']\<rparr>"]
        page_show_default_branch
          [where add = exact_add and t = 5 and t' = 6 and st = "init 0"
             and page = "PStr ''weather''"
             and m = "\<lparr>msg_type = ''gui.page.show'',
                data = [''__from'' \<mapsto> PStr ''skill-weather'', ''__idle'' \<mapsto> PBool False,
                        ''page'' \<mapsto> PStr ''weather'']\<rparr>"]
  by (simp add: dict_get_def init_def override_def cancel_idle_event_def
        cancel_scheduled_event_def start_idle_event_def schedule_event_def idle_check_def)

text \<open>
  C6. For every suppression state, every invocation of the explicit-close handler sets
  \<open>interaction_without_idle\<close> to false and emits exactly one close event, attributed to
  the last recorded interaction source; every invocation of the force-close handler
  emits exactly one close event, attributed to the \<open>skill_id\<close> its payload carries, and
  changes nothing else. Neither looks at the suppression flag before emitting.
\<close>

theorem explicit_and_force_close_emit_once:
  "close_window_by_event m st
     = st\<lparr>interaction_without_idle := False,
          host_emitted := host_emitted st @ [close_event (interaction_skill_id st)]\<rparr>
   \<and> (data m' ''skill_id'' = Some sid \<longrightarrow>
        close_window_by_force m' st
          = (None, st\<lparr>host_emitted := host_emitted st @ [close_event sid]\<rparr>))"
  by (simp add: close_window_by_event_def close_window_by_force_def dict_index_def
        bus_emit_def Let_def)

theorem explicit_and_force_close_emit_once_witness:
  "host_emitted (close_window_by_event
       \<lparr>msg_type = ''mycroft.gui.screen.close'', data = Map.empty\<rparr>
       ((init 0)\<lparr>interaction_skill_id := PStr ''skill-weather''\<rparr>))
     = [close_event (PStr ''skill-weather'')]
   \<and> close_window_by_force
       \<lparr>msg_type = ''mycroft.gui.force.screenclose'', data = [''skill_id'' \<mapsto> PStr ''clock'']\<rparr>
       ((init 0)\<lparr>interaction_skill_id := PStr ''skill-weather''\<rparr>)
     = (None, (init 0)\<lparr>interaction_skill_id := PStr ''skill-weather'',
                         host_emitted := [close_event (PStr ''clock'')]\<rparr>)"
  using explicit_and_force_close_emit_once
          [of "\<lparr>msg_type = ''mycroft.gui.screen.close'', data = Map.empty\<rparr>"
              "(init 0)\<lparr>interaction_skill_id := PStr ''skill-weather''\<rparr>"
              "\<lparr>msg_type = ''mycroft.gui.force.screenclose'',
                data = [''skill_id'' \<mapsto> PStr ''clock'']\<rparr>"
              "PStr ''clock''"]
  by (simp add: init_def)

text \<open>
  C7. A freshly constructed skill has no pending \<open>IdleCheck\<close> entry. From any state with
  at most one, after every prefix of every sequence of arm and cancel calls, run one
  after the other, at most one \<open>IdleCheck\<close> entry is pending, whatever the sums computed
  on the way. A cancel leaves none. An arm call that passes the guard and goes through
  cancels what was pending and leaves exactly the entry it schedules; an arm call the
  guard rejects leaves the state as it was.
\<close>

theorem at_most_one_idle_timer:
  assumes "length (pending_idle st) \<le> 1"
  shows "length (pending_idle (run_timer_calls add (take k cs) st)) \<le> 1
       \<and> pending_idle (init t0) = []
       \<and> pending_idle (cancel_idle_event st') = []
       \<and> (add t offset = Inr c \<and> \<not> fl_less c (idle_next st')
            \<and> (weak \<or> add t' offset = Inr c') \<and> py_int offset = Inr n \<longrightarrow>
            pending_idle (snd (start_idle_event add t t' offset weak skid st'))
              = [idle_check n skid])
       \<and> (add t offset = Inr c \<and> fl_less c (idle_next st') \<longrightarrow>
            start_idle_event add t t' offset weak skid st' = (None, st'))"
proof -
  have "length (pending_idle (run_timer_calls add (take k cs) st)) \<le> 1"
    using assms by (rule run_timer_calls_at_most_one)
  moreover have "pending_idle (init t0) = []"
    by (simp add: pending_idle_def init_def)
  moreover have "pending_idle (cancel_idle_event st') = []"
    by (rule pending_idle_cancel)
  moreover have "pending_idle (snd (start_idle_event add t t' offset weak skid st'))
      = [idle_check n skid]"
    if "add t offset = Inr c" and "\<not> fl_less c (idle_next st')"
      and "weak \<or> add t' offset = Inr c'" and "py_int offset = Inr n"
    using that
    by (rule pending_idle_start [where add = add and t = t and t' = t' and c = c and c' = c'])
  moreover have "start_idle_event add t t' offset weak skid st' = (None, st')"
    if "add t offset = Inr c" and "fl_less c (idle_next st')"
    using that by (simp add: start_idle_event_def)
  ultimately show ?thesis by blast
qed

theorem at_most_one_idle_timer_witness:
  "length (pending_idle (run_timer_calls exact_add
      (take 3 [Arm 0 0 (NInt 30) False (PStr ''a''), Arm 1 1 (NInt 5) False (PStr ''b''),
               Arm 2 2 (NInt 40) True (PStr ''c''), Cancel])
      (init 0))) \<le> 1
   \<and> pending_idle (snd (start_idle_event exact_add 2 2 (NInt 40) True (PStr ''c'')
        ((init 0)\<lparr>idle_next := Fin 30, host_scheduled := [idle_check 30 (PStr ''a'')]\<rparr>)))
      = [idle_check 40 (PStr ''c'')]
   \<and> start_idle_event exact_add 1 1 (NInt 5) False (PStr ''b'')
        ((init 0)\<lparr>idle_next := Fin 30, host_scheduled := [idle_check 30 (PStr ''a'')]\<rparr>)
      = (None, (init 0)\<lparr>idle_next := Fin 30, host_scheduled := [idle_check 30 (PStr ''a'')]\<rparr>)"
proof -
  have start: "length (pending_idle (init 0)) \<le> 1"
    by (simp add: pending_idle_def init_def)
  from at_most_one_idle_timer
         [OF start,
          where add = exact_add and k = 3
            and cs = "[Arm 0 0 (NInt 30) False (PStr ''a''), Arm 1 1 (NInt 5) False (PStr ''b''),
                       Arm 2 2 (NInt 40) True (PStr ''c''), Cancel]"
            and t = 2 and t' = 2 and offset = "NInt 40" and c = "Fin 42" and c' = "Fin 42"
            and n = 40 and weak = True and skid = "PStr ''c''"
            and st' = "(init 0)\<lparr>idle_next := Fin 30,
                                  host_scheduled := [idle_check 30 (PStr ''a'')]\<rparr>"]
       at_most_one_idle_timer
         [OF start,
          where add = exact_add and k = 3
            and cs = "[Arm 0 0 (NInt 30) False (PStr ''a''), Arm 1 1 (NInt 5) False (PStr ''b''),
                       Arm 2 2 (NInt 40) True (PStr ''c''), Cancel]"
            and t = 1 and t' = 1 and offset = "NInt 5" and c = "Fin 6" and c' = "Fin 6"
            and n = 5 and weak = False and skid = "PStr ''b''"
            and st' = "(init 0)\<lparr>idle_next := Fin 30,
                                  host_scheduled := [idle_check 30 (PStr ''a'')]\<rparr>"]
  show ?thesis by (simp add: init_def)
qed

text \<open>
  C8. Let the candidate be the double that \<open>time.monotonic() + offset\<close> evaluates to in
  the guard, whatever the rounding. A weak call whose candidate is less than the
  recorded deadline changes nothing: the deadline stays and nothing is rescheduled. A
  weak call whose candidate is not less cancels the pending \<open>IdleCheck\<close> entries and
  schedules a new one due in \<open>int(offset)\<close> seconds, and changes nothing else. In every
  case a weak call leaves the recorded deadline as it was, so the deadline a later call
  is compared with is the one before the weak call.
\<close>

theorem weak_arm_keeps_deadline:
  "(add t offset = Inr c \<and> fl_less c (idle_next st) \<longrightarrow>
      start_idle_event add t t' offset True skid st = (None, st))
   \<and> (add t offset = Inr c \<and> \<not> fl_less c (idle_next st) \<and> py_int offset = Inr n \<longrightarrow>
      start_idle_event add t t' offset True skid st
        = (None,
           st\<lparr>host_scheduled := cancel_scheduled_event ''IdleCheck'' (host_scheduled st)
                                 @ [idle_check n skid]\<rparr>)
      \<and> pending_idle (snd (start_idle_event add t t' offset True skid st))
          = [idle_check n skid])
   \<and> idle_next (snd (start_idle_event add t t' offset True skid st)) = idle_next st"
proof -
  have rejected: "start_idle_event add t t' offset True skid st = (None, st)"
    if "add t offset = Inr c" and "fl_less c (idle_next st)"
    using that by (simp add: start_idle_event_def)
  have accepted: "start_idle_event add t t' offset True skid st
        = (None,
           st\<lparr>host_scheduled := cancel_scheduled_event ''IdleCheck'' (host_scheduled st)
                                 @ [idle_check n skid]\<rparr>)
      \<and> pending_idle (snd (start_idle_event add t t' offset True skid st))
          = [idle_check n skid]"
    if "add t offset = Inr c" and "\<not> fl_less c (idle_next st)" and "py_int offset = Inr n"
    using that
    by (auto simp add: start_idle_event_def Let_def pending_idle_def schedule_event_def
          idle_check_def pending_idle_cancel_scheduled)
  have kept: "idle_next (snd (start_idle_event add t t' offset True skid st)) = idle_next st"
    by (rule start_idle_event_weak_deadline)
  from rejected accepted kept show ?thesis by blast
qed

theorem weak_arm_keeps_deadline_witness:
  "start_idle_event exact_add 1 1 (NInt 5) True (PStr ''b'')
       ((init 0)\<lparr>idle_next := Fin 30, host_scheduled := [idle_check 30 (PStr ''a'')]\<rparr>)
     = (None, (init 0)\<lparr>idle_next := Fin 30, host_scheduled := [idle_check 30 (PStr ''a'')]\<rparr>)
   \<and> start_idle_event exact_add 1 1 (NInt 40) True (PStr ''b'')
       ((init 0)\<lparr>idle_next := Fin 30, host_scheduled := [idle_check 30 (PStr ''a'')]\<rparr>)
     = (None, (init 0)\<lparr>idle_next := Fin 30, host_scheduled := [idle_check 40 (PStr ''b'')]\<rparr>)"
  using weak_arm_keeps_deadline
          [where add = exact_add and t = 1 and t' = 1 and offset = "NInt 5" and c = "Fin 6"
             and n = 5 and skid = "PStr ''b''"
             and st = "(init 0)\<lparr>idle_next := Fin 30,
                                 host_scheduled := [idle_check 30 (PStr ''a'')]\<rparr>"]
        weak_arm_keeps_deadline
          [where add = exact_add and t = 1 and t' = 1 and offset = "NInt 40" and c = "Fin 41"
             and n = 40 and skid = "PStr ''b''"
             and st = "(init 0)\<lparr>idle_next := Fin 30,
                                 host_scheduled := [idle_check 30 (PStr ''a'')]\<rparr>"]
  by (simp add: init_def cancel_scheduled_event_def idle_check_def)




text \<open>
  C10. On a message whose payload has no \<open>skill_id\<close>, the force-close handler raises
  \<open>KeyError('skill_id')\<close>, which is the outcome it hands back to its caller; the state
  is as before, so no close event has been emitted.
\<close>

theorem force_close_missing_skill_id_raises:
  assumes "data m ''skill_id'' = None"
  shows "close_window_by_force m st = (Some (KeyError ''skill_id''), st)
       \<and> host_emitted (snd (close_window_by_force m st)) = host_emitted st"
  using assms by (simp add: close_window_by_force_def dict_index_def)

theorem force_close_missing_skill_id_raises_witness:
  "close_window_by_force
     \<lparr>msg_type = ''mycroft.gui.force.screenclose'', data = [''source'' \<mapsto> PStr ''remote'']\<rparr>
     ((init 0)\<lparr>interaction_without_idle := False\<rparr>)
   = (Some (KeyError ''skill_id''), (init 0)\<lparr>interaction_without_idle := False\<rparr>)
   \<and> host_emitted (snd (close_window_by_force
       \<lparr>msg_type = ''mycroft.gui.force.screenclose'', data = [''source'' \<mapsto> PStr ''remote'']\<rparr>
       ((init 0)\<lparr>interaction_without_idle := False\<rparr>))) = []"
proof -
  have missing: "data \<lparr>msg_type = ''mycroft.gui.force.screenclose'',
                       data = [''source'' \<mapsto> PStr ''remote'']\<rparr> ''skill_id'' = None"
    by simp
  from force_close_missing_skill_id_raises
         [OF missing, of "(init 0)\<lparr>interaction_without_idle := False\<rparr>"]
  show ?thesis by (simp add: init_def)
qed

end
